theory Spec2Isabelle
  imports Complex_Main "HOL-Library.Char_ord" "HOL-Library.List_Lexorder"
begin

section \<open>Numeric helpers of the scripts\<close>

text \<open>
  The scripts compute with NumPy double-precision arrays.  Floating-point numbers are
  modelled as \<^typ>\<open>real\<close>, one-dimensional arrays as lists, and every exception the
  scripts can raise as a value of \<open>py_error\<close>.
\<close>

datatype py_error = ValueError | IndexError | NotADirectoryError | RuntimeError

text \<open>\<open>np.clip(x, a_min, a_max)\<close> is \<open>minimum(a_max, maximum(x, a_min))\<close>.\<close>

definition clip :: "real \<Rightarrow> real \<Rightarrow> real \<Rightarrow> real" where
  "clip x a_min a_max = min a_max (max x a_min)"

text \<open>
  \<open>np.linspace(start, stop, num)\<close>: \<open>num\<close> evenly spaced samples, the end points
  included; a single sample is \<open>start\<close>.
\<close>

definition linspace :: "real \<Rightarrow> real \<Rightarrow> nat \<Rightarrow> real list" where
  "linspace start stop num =
     map (\<lambda>i. start + real i * ((stop - start) / real (num - 1))) [0..<num]"

text \<open>
  Element-wise arithmetic on two one-dimensional arrays broadcasts an array of length
  one and raises \<open>ValueError\<close> on any other difference of lengths.
\<close>

definition broadcast2 :: "('a \<Rightarrow> 'b \<Rightarrow> 'c) \<Rightarrow> 'a list \<Rightarrow> 'b list \<Rightarrow> py_error + 'c list" where
  "broadcast2 f xs ys =
     (if length xs = length ys then Inr (map2 f xs ys)
      else if length xs = 1 then Inr (map (f (hd xs)) ys)
      else if length ys = 1 then Inr (map (\<lambda>x. f x (hd ys)) xs)
      else Inl ValueError)"

text \<open>\<open>np.sum\<close> of a boolean array: the number of entries that hold.\<close>

definition count_true :: "('a \<Rightarrow> bool) \<Rightarrow> 'a list \<Rightarrow> nat" where
  "count_true P xs = length (filter P xs)"

section \<open>Penalty calibrator (train-penalty-calibrator.py)\<close>

text \<open>\<open>penalty_calibration\<close> on one pair: \<open>similarity - alpha * clip(age_diff - tau, 0, M)\<close>.\<close>

definition penalty_calibration :: "real \<Rightarrow> real \<Rightarrow> real \<Rightarrow> real \<Rightarrow> real \<Rightarrow> real" where
  "penalty_calibration similarity age_diff alpha tau M =
     (let penalty = alpha * clip (age_diff - tau) 0 M
      in similarity - penalty)"

text \<open>
  The specification's \<open>clamp(x, lo, hi)\<close>, written from its words: values below the lower
  limit become the lower limit, values above the upper limit become the upper limit, and
  every other value is left as it is.
\<close>

definition clamp :: "real \<Rightarrow> real \<Rightarrow> real \<Rightarrow> real" where
  "clamp x lo hi = (if x < lo then lo else if hi < x then hi else x)"

section \<open>Constrained linear calibrator (train-linear-calibrator.py)\<close>

subsection \<open>Feature extraction\<close>

text \<open>\<open>np.dot\<close> of two one-dimensional arrays raises \<open>ValueError\<close> when their lengths differ.\<close>

definition np_dot :: "real list \<Rightarrow> real list \<Rightarrow> py_error + real" where
  "np_dot xs ys =
     (if length xs = length ys then Inr (sum_list (map2 (*) xs ys)) else Inl ValueError)"

text \<open>\<open>np.linalg.norm\<close> of a one-dimensional array: its Euclidean length.\<close>

definition linalg_norm :: "real list \<Rightarrow> real" where
  "linalg_norm xs = sqrt (sum_list (map (\<lambda>x. x\<^sup>2) xs))"

text \<open>
  Lines 160 to 170 of \<open>extract_features_from_pairs\<close>: the feature vector
  \<open>[similarity, age_diff, age_diff**2, avg_uncertainty]\<close> of two faces, each given by its
  embedding, its estimated age and the uncertainty of the estimate.
\<close>

definition feature_vec ::
  "real list \<Rightarrow> real \<Rightarrow> real \<Rightarrow> real list \<Rightarrow> real \<Rightarrow> real \<Rightarrow> py_error + real list" where
  "feature_vec emb1 age1 unc1 emb2 age2 unc2 =
     (let emb1_norm = map (\<lambda>x. x / linalg_norm emb1) emb1;
          emb2_norm = map (\<lambda>x. x / linalg_norm emb2) emb2
      in case np_dot emb1_norm emb2_norm of
           Inl e \<Rightarrow> Inl e
         | Inr similarity \<Rightarrow>
             (let age_diff = \<bar>age1 - age2\<bar>;
                  avg_uncertainty = (unc1 + unc2) / 2
              in Inr [similarity, age_diff, age_diff\<^sup>2, avg_uncertainty]))"

text \<open>
  The specification's words for the same quantities: \<open>normalize\<close> scales a vector by the
  reciprocal of its Euclidean length, \<open>dot\<close> adds the products of the components.
\<close>

definition normalize_vec :: "real list \<Rightarrow> real list" where
  "normalize_vec e = map (\<lambda>x. (1 / sqrt (\<Sum>i<length e. (e ! i)\<^sup>2)) * x) e"

definition dot :: "real list \<Rightarrow> real list \<Rightarrow> real" where
  "dot xs ys = (\<Sum>i<length xs. xs ! i * ys ! i)"

subsection \<open>Fitting\<close>

text \<open>
  A box bound of \<open>scipy.optimize.minimize\<close>: a pair of an optional lower and an optional
  upper limit, \<open>None\<close> for a side that is not restricted.
\<close>

type_synonym bound = "real option \<times> real option"

definition within_bound :: "bound \<Rightarrow> real \<Rightarrow> bool" where
  "within_bound b v =
     ((case fst b of None \<Rightarrow> True | Some lo \<Rightarrow> lo \<le> v) \<and>
      (case snd b of None \<Rightarrow> True | Some hi \<Rightarrow> v \<le> hi))"

definition feasible_bound :: "bound \<Rightarrow> bool" where
  "feasible_bound b =
     (case fst b of None \<Rightarrow> True
      | Some lo \<Rightarrow> (case snd b of None \<Rightarrow> True | Some hi \<Rightarrow> lo \<le> hi))"

text \<open>
  The optimiser \<open>scipy.optimize.minimize(method='L-BFGS-B')\<close> is a library routine outside
  the repository; the model takes it as a parameter \<open>minimize objective x0 bounds\<close> that
  returns \<open>result.x\<close>.  Its documented contract, the only fact used about it: started with
  as many bounds as parameters, each bound feasible, it returns a point of the same
  dimension inside the box.
\<close>

type_synonym minimizer = "(real list \<Rightarrow> real) \<Rightarrow> real list \<Rightarrow> bound list \<Rightarrow> real list"

definition lbfgsb_contract :: "minimizer \<Rightarrow> bool" where
  "lbfgsb_contract minimize =
     (\<forall>objective x0 bounds.
        length x0 = length bounds \<and> list_all feasible_bound bounds
        \<longrightarrow> list_all2 within_bound bounds (minimize objective x0 bounds))"

text \<open>
  The simplest routine with that contract moves the start point into the box and stops
  there, which is what L-BFGS-B does before its first iteration.
\<close>

definition project_bound :: "bound \<Rightarrow> real \<Rightarrow> real" where
  "project_bound b v =
     (let v1 = (case fst b of None \<Rightarrow> v | Some lo \<Rightarrow> max lo v)
      in case snd b of None \<Rightarrow> v1 | Some hi \<Rightarrow> min hi v1)"

definition project_start :: minimizer where
  "project_start objective x0 bounds = map2 project_bound bounds x0"

definition sigmoid :: "real \<Rightarrow> real" where
  "sigmoid x = 1 / (1 + exp (- x))"

text \<open>\<open>features @ w[1:] + w[0]\<close> for one row of the feature matrix.\<close>

definition logit :: "real list \<Rightarrow> real list \<Rightarrow> real" where
  "logit w row = sum_list (map2 (*) row (tl w)) + hd w"

definition logistic_loss :: "real list list \<Rightarrow> int list \<Rightarrow> real \<Rightarrow> real list \<Rightarrow> real" where
  "logistic_loss features labels regularization params =
     (let w = params;
          logits = map (logit w) features;
          probs = map sigmoid logits;
          eps = 1 / 10 ^ 15;
          probs = map (\<lambda>p. clip p eps (1 - eps)) probs;
          bce = - (sum_list (map2 (\<lambda>y p. real_of_int y * ln p + (1 - real_of_int y) * ln (1 - p))
                               labels probs) / real (length probs));
          l2 = regularization * sum_list (map (\<lambda>x. x\<^sup>2) (tl w))
      in bce + l2)"

definition initial_params :: "real list" where
  "initial_params = [0, 1, - (1 / 100), - (1 / 10000), - (1 / 100)]"

definition bounds :: "bound list" where
  "bounds = [(None, None), (Some 0, None), (None, Some 0), (None, Some 0), (None, Some 0)]"

definition constrained_linear_calibrator ::
  "minimizer \<Rightarrow> real list list \<Rightarrow> int list \<Rightarrow> real \<Rightarrow> real list" where
  "constrained_linear_calibrator minimize features labels regularization =
     (let result_x = minimize (logistic_loss features labels regularization) initial_params bounds;
          params = result_x
      in params)"

text \<open>
  The probability \<open>evaluate_calibrator\<close> assigns to one feature row (lines 260 and 261).
\<close>

definition calibrator_prob :: "real list \<Rightarrow> real list \<Rightarrow> real" where
  "calibrator_prob params row = sigmoid (logit params row)"

subsection \<open>Evaluation\<close>

text \<open>
  \<open>features @ params[1:] + params[0]\<close> raises \<open>ValueError\<close> unless every row of the
  feature matrix has as many entries as there are weights, and \<open>IndexError\<close> when there is
  no bias to read.
\<close>

definition calibrator_probs :: "real list \<Rightarrow> real list list \<Rightarrow> py_error + real list" where
  "calibrator_probs params features =
     (if \<not> list_all (\<lambda>row. length row = length (tl params)) features then Inl ValueError
      else if params = [] then Inl IndexError
      else Inr (map (calibrator_prob params) features))"

text \<open>
  The rates at one threshold (lines 270 to 278), on the probabilities paired with their
  labels.  A sample is predicted positive when its probability is at least the threshold.
\<close>

definition tpr_at :: "(real \<times> int) list \<Rightarrow> real \<Rightarrow> real" where
  "tpr_at scored threshold =
     (let tp = count_true (\<lambda>(p, y). p \<ge> threshold \<and> y = 1) scored;
          fn = count_true (\<lambda>(p, y). \<not> p \<ge> threshold \<and> y = 1) scored
      in if tp + fn > 0 then real tp / real (tp + fn) else 0)"

definition fpr_at :: "(real \<times> int) list \<Rightarrow> real \<Rightarrow> real" where
  "fpr_at scored threshold =
     (let fp = count_true (\<lambda>(p, y). p \<ge> threshold \<and> y = 0) scored;
          tn = count_true (\<lambda>(p, y). \<not> p \<ge> threshold \<and> y = 0) scored
      in if fp + tn > 0 then real fp / real (fp + tn) else 0)"

text \<open>
  \<open>np.trapz(y, x)\<close>: the sum of \<open>(x[i+1] - x[i]) * (y[i+1] + y[i]) / 2\<close> over the
  consecutive samples, in the order in which they are given.
\<close>

fun trapz :: "real list \<Rightarrow> real list \<Rightarrow> real" where
  "trapz (y1 # y2 # ys) (x1 # x2 # xs) = (x2 - x1) * (y2 + y1) / 2 + trapz (y2 # ys) (x2 # xs)"
| "trapz _ _ = 0"

text \<open>
  \<open>np.argmin\<close>: the index of the first occurrence of the least entry.  It is applied to
  one entry per threshold, so never to an empty array.
\<close>

fun argmin_from :: "real list \<Rightarrow> nat \<Rightarrow> nat \<Rightarrow> real \<Rightarrow> nat" where
  "argmin_from [] i best_i best = best_i"
| "argmin_from (x # xs) i best_i best =
     (if x < best then argmin_from xs (Suc i) i x else argmin_from xs (Suc i) best_i best)"

definition argmin :: "real list \<Rightarrow> nat" where
  "argmin xs = argmin_from (tl xs) 1 0 (hd xs)"

text \<open>
  Lines 296 to 299: the first entry of \<open>fpr_list\<close> that is at most the target decides; the
  value before the loop, \<open>0.0\<close>, stays when there is none.
\<close>

fun tar_scan :: "real \<Rightarrow> real list \<Rightarrow> real list \<Rightarrow> real" where
  "tar_scan far_target (fpr_val # fprs) (tpr_val # tprs) =
     (if fpr_val \<le> far_target then tpr_val else tar_scan far_target fprs tprs)"
| "tar_scan far_target _ _ = 0"

text \<open>Lines 263 to 305, on the probabilities paired with their labels.\<close>

definition evaluate_scored :: "(real \<times> int) list \<Rightarrow> real \<times> real \<times> real" where
  "evaluate_scored scored =
     (let thresholds = linspace 0 1 1000;
          tpr_list = map (tpr_at scored) thresholds;
          fpr_list = map (fpr_at scored) thresholds;
          auc = trapz tpr_list fpr_list;
          eer_idx = argmin (map2 (\<lambda>t f. \<bar>t - (1 - f)\<bar>) tpr_list fpr_list);
          eer = (fpr_list ! eer_idx + (1 - tpr_list ! eer_idx)) / 2;
          far_target = 1 / 1000;
          tar_at_far = tar_scan far_target fpr_list tpr_list
      in (auc, eer, tar_at_far))"

text \<open>
  \<open>evaluate_calibrator\<close> returns \<open>(auc, eer, tar_at_far)\<close>.  Comparing the predictions with
  the labels broadcasts like every element-wise operation.
\<close>

definition evaluate_calibrator ::
  "real list \<Rightarrow> real list list \<Rightarrow> int list \<Rightarrow> py_error + real \<times> real \<times> real" where
  "evaluate_calibrator params features labels =
     (case calibrator_probs params features of
        Inl e \<Rightarrow> Inl e
      | Inr probs \<Rightarrow>
          (case broadcast2 Pair probs labels of
             Inl e \<Rightarrow> Inl e
           | Inr scored \<Rightarrow> Inr (evaluate_scored scored)))"

section \<open>Evaluation of the penalty calibrator (train-penalty-calibrator.py)\<close>

text \<open>The dictionaries \<open>same_pairs\<close> and \<open>diff_pairs\<close>, each with two parallel arrays.\<close>

record pair_arrays =
  similarity :: "real list"
  age_diff :: "real list"

definition calibrated_scores :: "real \<Rightarrow> real \<Rightarrow> real \<Rightarrow> pair_arrays \<Rightarrow> py_error + real list" where
  "calibrated_scores alpha tau M pairs =
     broadcast2 (\<lambda>s d. penalty_calibration s d alpha tau M) (similarity pairs) (age_diff pairs)"

text \<open>The body of the loop of lines 59 to 71: the mean of the two error rates.\<close>

definition mean_error_at :: "real list \<Rightarrow> real list \<Rightarrow> real \<Rightarrow> real" where
  "mean_error_at same_scores diff_scores threshold =
     (let tp = count_true (\<lambda>s. s \<ge> threshold) same_scores;
          fn = length same_scores - tp;
          tn = count_true (\<lambda>s. s < threshold) diff_scores;
          fp = length diff_scores - tn;
          fnr = (if length same_scores > 0 then real fn / real (length same_scores) else 0);
          fpr = (if length diff_scores > 0 then real fp / real (length diff_scores) else 0);
          eer = (fnr + fpr) / 2
      in eer)"

text \<open>The loop of lines 59 to 75, with \<open>(best_eer, best_threshold)\<close> as its state.\<close>

fun eer_search :: "real list \<Rightarrow> real list \<Rightarrow> real list \<Rightarrow> real \<times> real \<Rightarrow> real \<times> real" where
  "eer_search same_scores diff_scores [] (best_eer, best_threshold) = (best_eer, best_threshold)"
| "eer_search same_scores diff_scores (threshold # thresholds) (best_eer, best_threshold) =
     (let eer = mean_error_at same_scores diff_scores threshold
      in if eer < best_eer
         then eer_search same_scores diff_scores thresholds (eer, threshold)
         else eer_search same_scores diff_scores thresholds (best_eer, best_threshold))"

text \<open>
  The loop of lines 81 to 91: the first threshold whose false positive rate reaches the
  target decides and ends the loop; the \<open>else\<close> of the loop gives \<open>0.0\<close>.
\<close>

fun tar_search :: "real \<Rightarrow> real list \<Rightarrow> real list \<Rightarrow> real list \<Rightarrow> real" where
  "tar_search target_fpr same_scores diff_scores [] = 0"
| "tar_search target_fpr same_scores diff_scores (threshold # thresholds) =
     (let fp = count_true (\<lambda>s. s \<ge> threshold) diff_scores;
          fpr = (if length diff_scores > 0 then real fp / real (length diff_scores) else 0)
      in if fpr \<ge> target_fpr
         then (let tp = count_true (\<lambda>s. s \<ge> threshold) same_scores;
                   tar = (if length same_scores > 0 then real tp / real (length same_scores) else 0)
               in tar)
         else tar_search target_fpr same_scores diff_scores thresholds)"

text \<open>
  The local variables of \<open>evaluate_calibration\<close> when it returns.  The function returns
  \<open>best_eer\<close>; \<open>tar\<close> is what it prints as \<open>TAR@FAR=1e-3\<close> when asked to be verbose.
\<close>

record evaluation =
  best_eer :: real
  best_threshold :: real
  tar :: real

definition evaluate_calibration_locals ::
  "real \<times> real \<times> real \<Rightarrow> pair_arrays \<Rightarrow> pair_arrays \<Rightarrow> py_error + evaluation" where
  "evaluate_calibration_locals params same_pairs diff_pairs =
     (case params of (alpha, tau, M) \<Rightarrow>
        (case calibrated_scores alpha tau M same_pairs of
           Inl e \<Rightarrow> Inl e
         | Inr same_scores \<Rightarrow>
             (case calibrated_scores alpha tau M diff_pairs of
                Inl e \<Rightarrow> Inl e
              | Inr diff_scores \<Rightarrow>
                  (let thresholds = linspace 0 1 1000;
                       best = eer_search same_scores diff_scores thresholds (1, 1 / 2);
                       target_fpr = 1 / 1000;
                       tar = tar_search target_fpr same_scores diff_scores (linspace 1 0 10000)
                   in Inr \<lparr>best_eer = fst best, best_threshold = snd best, tar = tar\<rparr>))))"

definition evaluate_calibration ::
  "real \<times> real \<times> real \<Rightarrow> pair_arrays \<Rightarrow> pair_arrays \<Rightarrow> py_error + real" where
  "evaluate_calibration params same_pairs diff_pairs =
     map_sum id best_eer (evaluate_calibration_locals params same_pairs diff_pairs)"

section \<open>The metrics in the words of the specification\<close>

text \<open>
  The share of the scores that are at least the threshold: the true positive rate on the
  same-person scores, the false positive rate on the different-person scores.  The false
  negative rate is the share of the same-person scores below the threshold.
\<close>

definition rate_ge :: "real list \<Rightarrow> real \<Rightarrow> real" where
  "rate_ge scores t = real (length (filter (\<lambda>s. t \<le> s) scores)) / real (length scores)"

definition rate_lt :: "real list \<Rightarrow> real \<Rightarrow> real" where
  "rate_lt scores t = real (length (filter (\<lambda>s. s < t) scores)) / real (length scores)"

text \<open>
  TAR at a target FAR: the thresholds are scanned in the given order; the first one at
  which the false positive rate is at least the target gives the true positive rate that
  is reported, and the report is 0 when there is no such threshold.
\<close>

definition tar_at_far_spec :: "real \<Rightarrow> real list \<Rightarrow> real list \<Rightarrow> real list \<Rightarrow> real" where
  "tar_at_far_spec target thresholds same_scores diff_scores =
     (case find (\<lambda>t. target \<le> rate_ge diff_scores t) thresholds of
        None \<Rightarrow> 0
      | Some t \<Rightarrow> rate_ge same_scores t)"

text \<open>
  The scan of the linear evaluator, in the same words: the first threshold, in the given
  order, at which the false positive rate is at most the target gives the true positive
  rate that is reported, and the report is 0 when there is no such threshold.
\<close>

definition tar_first_below :: "real \<Rightarrow> real list \<Rightarrow> real list \<Rightarrow> real list \<Rightarrow> real" where
  "tar_first_below target thresholds same_scores diff_scores =
     (case find (\<lambda>t. rate_ge diff_scores t \<le> target) thresholds of
        None \<Rightarrow> 0
      | Some t \<Rightarrow> rate_ge same_scores t)"

text \<open>The scores of the pairs with a given label.\<close>

definition scores_with :: "int \<Rightarrow> (real \<times> int) list \<Rightarrow> real list" where
  "scores_with y scored = map fst (filter (\<lambda>py. snd py = y) scored)"

section \<open>Extraction loops\<close>

text \<open>
  What the body of a \<open>try\<close> block does with one sample: it leaves the iteration with
  \<open>continue\<close>, it raises an exception that the \<open>except\<close> clause catches, or it produces
  the sample's data.
\<close>

datatype 'a outcome = Skipped | Raised py_error | Produced 'a

fun produced :: "'a outcome \<Rightarrow> 'a option" where
  "produced (Produced x) = Some x"
| "produced _ = None"

text \<open>Everything the two extraction functions print, one constructor per message.\<close>

datatype log_line =
    Extracting_features
  | Processed_pairs nat nat
  | Failed_on_pair nat py_error
  | Extracted_vectors nat
  | Positive_pairs int
  | Negative_pairs int
  | Extracting_embeddings
  | Skip_directory string
  | Processing_directory string
  | Found_files nat
  | Processed_images nat int string
  | Extracted_embeddings nat

text \<open>\<open>os.path.join\<close> of two components, with POSIX separators.\<close>

definition path_join :: "string \<Rightarrow> string \<Rightarrow> string" where
  "path_join a b =
     (if b \<noteq> [] \<and> hd b = CHR ''/'' then b
      else if a = [] \<or> last a = CHR ''/'' then a @ b
      else a @ ''/'' @ b)"

subsection \<open>Features of labelled pairs (train-linear-calibrator.py)\<close>

text \<open>
  The collaborators of \<open>extract_features_from_pairs\<close>: \<open>cv2.imread\<close>, which returns
  \<open>None\<close> for a file it cannot read; the embedding network with the preprocessing in
  front of it; and the age probe, which returns an age and an uncertainty.  The two
  networks may raise.
\<close>

record 'img pair_env =
  imread :: "string \<Rightarrow> 'img option"
  mobilefacenet_session :: "'img \<Rightarrow> py_error + real list"
  age_probe_session :: "real list \<Rightarrow> py_error + real \<times> real"

definition get_embedding_and_age ::
  "'img pair_env \<Rightarrow> 'img \<Rightarrow> py_error + real list \<times> real \<times> real" where
  "get_embedding_and_age env img =
     (case mobilefacenet_session env img of
        Inl e \<Rightarrow> Inl e
      | Inr embedding \<Rightarrow>
          (case age_probe_session env embedding of
             Inl e \<Rightarrow> Inl e
           | Inr (age, uncertainty) \<Rightarrow> Inr (embedding, age, uncertainty)))"

text \<open>The body of the \<open>try\<close> block of lines 123 to 170, for one pair.\<close>

definition pair_outcome ::
  "'img pair_env \<Rightarrow> string \<Rightarrow> string \<times> string \<times> int \<Rightarrow> real list outcome" where
  "pair_outcome env images_dir pair =
     (case pair of (img1_path, img2_path, label) \<Rightarrow>
        (let img1_full = path_join images_dir img1_path;
             img2_full = path_join images_dir img2_path
         in case imread env img1_full of
              None \<Rightarrow> Skipped
            | Some img1 \<Rightarrow>
                (case imread env img2_full of
                   None \<Rightarrow> Skipped
                 | Some img2 \<Rightarrow>
                     (case get_embedding_and_age env img1 of
                        Inl e \<Rightarrow> Raised e
                      | Inr (emb1, age1, unc1) \<Rightarrow>
                          (case get_embedding_and_age env img2 of
                             Inl e \<Rightarrow> Raised e
                           | Inr (emb2, age2, unc2) \<Rightarrow>
                               (case feature_vec emb1 age1 unc1 emb2 age2 unc2 of
                                  Inl e \<Rightarrow> Raised e
                                | Inr fv \<Rightarrow> Produced fv))))))"

text \<open>
  The loop of lines 122 to 180 over \<open>enumerate(pairs)\<close>, with the lists \<open>features\<close> and
  \<open>labels\<close> and the printed lines as its state.
\<close>

fun pairs_loop ::
  "'img pair_env \<Rightarrow> string \<Rightarrow> nat \<Rightarrow> nat \<Rightarrow> (string \<times> string \<times> int) list
   \<Rightarrow> real list list \<times> int list \<times> log_line list \<Rightarrow> real list list \<times> int list \<times> log_line list" where
  "pairs_loop env images_dir n_pairs idx [] state = state"
| "pairs_loop env images_dir n_pairs idx (pair # pairs) (features, labels, printed) =
     (case pair_outcome env images_dir pair of
        Skipped \<Rightarrow> pairs_loop env images_dir n_pairs (Suc idx) pairs (features, labels, printed)
      | Raised e \<Rightarrow>
          pairs_loop env images_dir n_pairs (Suc idx) pairs (features, labels, printed @ [Failed_on_pair idx e])
      | Produced fv \<Rightarrow>
          pairs_loop env images_dir n_pairs (Suc idx) pairs
            (features @ [fv], labels @ [snd (snd pair)],
             printed @ (if (idx + 1) mod 100 = 0 then [Processed_pairs (idx + 1) n_pairs] else [])))"

text \<open>\<open>extract_features_from_pairs\<close> returns \<open>(features, labels)\<close>; the third component is what it printed.\<close>

definition extract_features_from_pairs ::
  "(string \<times> string \<times> int) list \<Rightarrow> string \<Rightarrow> 'img pair_env
   \<Rightarrow> real list list \<times> int list \<times> log_line list" where
  "extract_features_from_pairs pairs images_dir env =
     (case pairs_loop env images_dir (length pairs) 0 pairs ([], [], [Extracting_features]) of
        (features, labels, printed) \<Rightarrow>
          (features, labels,
           printed @ [Extracted_vectors (length features),
                  Positive_pairs (sum_list labels),
                  Negative_pairs (int (length labels) - sum_list labels)]))"

subsection \<open>Embeddings of the UTKFace images (train-age-probe.py)\<close>













subsection \<open>The samples a run keeps, in words\<close>





subsection \<open>Sample collaborators\<close>

text \<open>
  Concrete collaborators on which the loops can be run.  An image is represented by the
  path it was read from.  In \<open>two_faces\<close> every file is readable and the two networks
  tell \<open>d/a.jpg\<close> from every other image; in \<open>no_images\<close> no file is readable.
\<close>

definition two_faces :: "string pair_env" where
  "two_faces =
     \<lparr>imread = (\<lambda>path. Some path),
      mobilefacenet_session = (\<lambda>img. if img = ''d/a.jpg'' then Inr [1, 0] else Inr [0, 1]),
      age_probe_session = (\<lambda>emb. if emb = [1, 0] then Inr (30, 2) else Inr (42, 4))\<rparr>"



section \<open>Properties of the penalty model\<close>

lemma clip_eq_clamp: "lo \<le> hi \<Longrightarrow> clip x lo hi = clamp x lo hi"
  by (simp add: clip_def clamp_def min_def max_def)

lemma clip_bounds: "lo \<le> hi \<Longrightarrow> lo \<le> clip x lo hi \<and> clip x lo hi \<le> hi"
  by (simp add: clip_def min_def max_def)

lemma clip_mono: "x \<le> y \<Longrightarrow> clip x lo hi \<le> clip y lo hi"
  by (simp add: clip_def min_def max_def)

text \<open>
  Claim C3.  For every similarity \<open>s\<close>, every age difference \<open>d \<ge> 0\<close> and penalty
  parameters with \<open>M \<ge> 0\<close>, the calibrated score is \<open>s - alpha * clamp (d - tau) 0 M\<close>;
  it is \<open>s\<close> itself whenever \<open>d \<le> tau\<close>, and \<open>s - alpha * M\<close> whenever \<open>d \<ge> tau + M\<close>.
\<close>

theorem penalty_calibration_closed_form:
  assumes "0 \<le> d" and "0 \<le> M"
  shows "penalty_calibration s d alpha tau M = s - alpha * clamp (d - tau) 0 M
       \<and> (d \<le> tau \<longrightarrow> penalty_calibration s d alpha tau M = s)
       \<and> (tau + M \<le> d \<longrightarrow> penalty_calibration s d alpha tau M = s - alpha * M)"
  using assms by (simp add: penalty_calibration_def clip_def clamp_def min_def max_def)

theorem penalty_calibration_closed_form_witness:
  "(0::real) \<le> 50 \<and> (0::real) \<le> 30
   \<and> penalty_calibration (7/10) 50 (1/200) 5 30 = 7/10 - (1/200) * clamp (50 - 5) 0 30
   \<and> penalty_calibration (7/10) 50 (1/200) 5 30 = 7/10 - (1/200) * 30
   \<and> penalty_calibration (7/10) 3 (1/200) 5 30 = 7/10"
  using penalty_calibration_closed_form [of 50 30 "7/10" "1/200" 5]
        penalty_calibration_closed_form [of 3 30 "7/10" "1/200" 5]
  by simp

text \<open>
  Claim C10.  For every similarity \<open>s\<close>, every real age difference \<open>d\<close> (also below the
  threshold, also negative) and parameters with \<open>alpha \<ge> 0\<close> and \<open>M \<ge> 0\<close>, the calibrated
  score lies between \<open>s - alpha * M\<close> and \<open>s\<close>, and it does not increase when the age
  difference grows.
\<close>

theorem penalty_calibration_bounded_antitone:
  assumes "0 \<le> alpha" and "0 \<le> M"
  shows "s - alpha * M \<le> penalty_calibration s d alpha tau M
       \<and> penalty_calibration s d alpha tau M \<le> s
       \<and> (d \<le> d' \<longrightarrow> penalty_calibration s d' alpha tau M \<le> penalty_calibration s d alpha tau M)"
proof -
  have b: "0 \<le> clip (d - tau) 0 M \<and> clip (d - tau) 0 M \<le> M"
    using clip_bounds [OF assms(2)] .
  have lower: "alpha * clip (d - tau) 0 M \<le> alpha * M"
    using b assms(1) by (simp add: mult_left_mono)
  have upper: "0 \<le> alpha * clip (d - tau) 0 M"
    using b assms(1) by simp
  have mono: "alpha * clip (d - tau) 0 M \<le> alpha * clip (d' - tau) 0 M" if "d \<le> d'"
    using that assms(1) by (intro mult_left_mono clip_mono) simp_all
  show ?thesis
    using lower upper mono by (simp add: penalty_calibration_def)
qed

theorem penalty_calibration_bounded_antitone_witness:
  "(0::real) \<le> 1/200 \<and> (0::real) \<le> 30
   \<and> 7/10 - (1/200) * 30 \<le> penalty_calibration (7/10) (-4) (1/200) 5 30
   \<and> penalty_calibration (7/10) (-4) (1/200) 5 30 \<le> 7/10
   \<and> penalty_calibration (7/10) 20 (1/200) 5 30 \<le> penalty_calibration (7/10) (-4) (1/200) 5 30"
  using penalty_calibration_bounded_antitone [of "1/200" 30 "7/10" "-4" 5 20]
  by simp

section \<open>Properties of the constrained linear calibrator\<close>

lemma sum_list_map2_nth:
  "length xs = length ys \<Longrightarrow> sum_list (map2 f xs ys) = (\<Sum>i<length xs. f (xs ! i) (ys ! i))"
  by (induction xs ys rule: list_induct2) (simp_all add: sum.lessThan_Suc_shift del: sum.lessThan_Suc)

lemma sum_list_map_nth: "sum_list (map f xs) = (\<Sum>i<length xs. f (xs ! i))"
  by (induction xs) (simp_all add: sum.lessThan_Suc_shift del: sum.lessThan_Suc)

lemma normalize_code: "map (\<lambda>x. x / linalg_norm e) e = normalize_vec e"
  by (simp add: normalize_vec_def linalg_norm_def sum_list_map_nth divide_inverse mult.commute)

lemma np_dot_eq_dot: "length xs = length ys \<Longrightarrow> np_dot xs ys = Inr (dot xs ys)"
  by (simp add: np_dot_def dot_def sum_list_map2_nth)

text \<open>
  Claim C7.  For two faces, each an embedding with an age estimate, the assembled feature
  vector holds the dot product of the two unit-normalised embeddings as similarity, the
  absolute difference of the two ages as age difference (so never a negative number), the
  square of that difference, and the mean of the two uncertainties.  The two embeddings
  have the same dimension, as the outputs of one embedding network do.
\<close>

theorem feature_vec_assembles:
  assumes "length e1 = length e2"
  shows "feature_vec e1 a1 u1 e2 a2 u2 =
           Inr [dot (normalize_vec e1) (normalize_vec e2), \<bar>a1 - a2\<bar>, \<bar>a1 - a2\<bar>\<^sup>2, (u1 + u2) / 2]
         \<and> 0 \<le> \<bar>a1 - a2\<bar>"
proof -
  have "length (normalize_vec e1) = length (normalize_vec e2)"
    using assms by (simp add: normalize_vec_def)
  then show ?thesis
    by (simp add: feature_vec_def normalize_code np_dot_eq_dot)
qed

lemma within_project: "feasible_bound b \<Longrightarrow> within_bound b (project_bound b v)"
  by (cases b) (auto simp: feasible_bound_def within_bound_def project_bound_def split: option.splits)

lemma project_start_contract: "lbfgsb_contract project_start"
  unfolding lbfgsb_contract_def project_start_def
proof (intro allI impI)
  fix objective :: "real list \<Rightarrow> real" and x0 :: "real list" and bs :: "bound list"
  assume "length x0 = length bs \<and> list_all feasible_bound bs"
  then have "length bs = length x0" and "list_all feasible_bound bs" by simp_all
  then show "list_all2 within_bound bs (map2 project_bound bs x0)"
    by (induction bs x0 rule: list_induct2) (simp_all add: within_project)
qed

text \<open>
  Claim C1.  Whatever the training set of labelled pairs and the regularisation strength,
  the fitted constrained linear model has a similarity weight that is not negative and
  weights for the age difference, its square and the uncertainty that are not positive.
  This covers a training set in which the age gap alone predicts the label and similarity
  is noise.  The optimiser is any routine that honours the box it is given.
\<close>

theorem constrained_linear_calibrator_signs:
  assumes "lbfgsb_contract minimize"
  shows "\<exists>bias w_sim w_age w_age2 w_unc.
           constrained_linear_calibrator minimize features labels regularization
             = [bias, w_sim, w_age, w_age2, w_unc]
           \<and> 0 \<le> w_sim \<and> w_age \<le> 0 \<and> w_age2 \<le> 0 \<and> w_unc \<le> 0"
proof -
  let ?x = "minimize (logistic_loss features labels regularization) initial_params bounds"
  have "length initial_params = length bounds \<and> list_all feasible_bound bounds"
    by (simp add: initial_params_def bounds_def feasible_bound_def)
  with assms have "list_all2 within_bound bounds ?x"
    unfolding lbfgsb_contract_def by blast
  then show ?thesis
    by (auto simp: bounds_def constrained_linear_calibrator_def within_bound_def list_all2_Cons1)
qed


theorem feature_vec_assembles_witness:
  "length [3, 4 :: real] = length [4, 3 :: real]
   \<and> feature_vec [3, 4] 30 2 [4, 3] 42 4 =
        Inr [dot (normalize_vec [3, 4]) (normalize_vec [4, 3]), \<bar>30 - 42\<bar>, \<bar>30 - 42\<bar>\<^sup>2, (2 + 4) / 2]
   \<and> (0::real) \<le> \<bar>30 - 42\<bar>"
  using feature_vec_assembles [of "[3, 4]" "[4, 3]" 30 2 42 4] by simp

theorem constrained_linear_calibrator_signs_witness:
  "lbfgsb_contract project_start
   \<and> (\<exists>bias w_sim w_age w_age2 w_unc.
         constrained_linear_calibrator project_start
             [[3/10, 0, 0, 0], [9/10, 40, 1600, 0], [1/10, 0, 0, 0], [7/10, 40, 1600, 0]]
             [1, 0, 1, 0] (1/100)
           = [bias, w_sim, w_age, w_age2, w_unc]
         \<and> 0 \<le> w_sim \<and> w_age \<le> 0 \<and> w_age2 \<le> 0 \<and> w_unc \<le> 0)"
  using constrained_linear_calibrator_signs [OF project_start_contract] project_start_contract
  by blast

lemma sigmoid_mono: "x \<le> y \<Longrightarrow> sigmoid x \<le> sigmoid y"
  unfolding sigmoid_def by (intro divide_left_mono) (simp_all add: add_pos_pos)

lemma logit_row:
  "logit [bias, w_sim, w_age, w_age2, w_unc] [s, d, q, u]
     = bias + w_sim * s + w_age * d + w_age2 * q + w_unc * u"
  by (simp add: logit_def algebra_simps)

text \<open>
  Claim C2.  With weights that satisfy the sign constraints, and a feature row whose third
  entry is the square of a non-negative age difference, the probability does not increase
  when the age difference grows and does not decrease when the similarity grows, the
  other features held fixed.  No restriction is put on the range of the features.
\<close>

theorem calibrator_prob_monotone:
  assumes "0 \<le> w_sim" and "w_age \<le> 0" and "w_age2 \<le> 0" and "w_unc \<le> 0"
    and "0 \<le> d" and "d \<le> d'" and "s \<le> s'"
  shows "calibrator_prob [bias, w_sim, w_age, w_age2, w_unc] [s, d', d'\<^sup>2, unc]
           \<le> calibrator_prob [bias, w_sim, w_age, w_age2, w_unc] [s, d, d\<^sup>2, unc]
       \<and> calibrator_prob [bias, w_sim, w_age, w_age2, w_unc] [s, d, d\<^sup>2, unc]
           \<le> calibrator_prob [bias, w_sim, w_age, w_age2, w_unc] [s', d, d\<^sup>2, unc]"
proof -
  have sq: "d\<^sup>2 \<le> d'\<^sup>2"
    using assms(5,6) by (simp add: power_mono)
  have age: "w_age * d' \<le> w_age * d"
    using assms(2,6) by (simp add: mult_left_mono_neg)
  have age2: "w_age2 * d'\<^sup>2 \<le> w_age2 * d\<^sup>2"
    using assms(3) sq by (simp add: mult_left_mono_neg)
  have sim: "w_sim * s \<le> w_sim * s'"
    using assms(1,7) by (simp add: mult_left_mono)
  show ?thesis
    unfolding calibrator_prob_def logit_row
    using age age2 sim by (intro conjI sigmoid_mono) simp_all
qed

theorem calibrator_prob_monotone_witness:
  "(0::real) \<le> 1 \<and> - (1/100) \<le> (0::real) \<and> - (1/10000) \<le> (0::real) \<and> (0::real) \<le> 5
   \<and> (5::real) \<le> 40 \<and> (1/5::real) \<le> 9/10
   \<and> calibrator_prob [0, 1, - (1/100), - (1/10000), - (1/100)] [1/5, 40, 40\<^sup>2, 3]
        \<le> calibrator_prob [0, 1, - (1/100), - (1/10000), - (1/100)] [1/5, 5, 5\<^sup>2, 3]
   \<and> calibrator_prob [0, 1, - (1/100), - (1/10000), - (1/100)] [1/5, 5, 5\<^sup>2, 3]
        \<le> calibrator_prob [0, 1, - (1/100), - (1/10000), - (1/100)] [9/10, 5, 5\<^sup>2, 3]"
  using calibrator_prob_monotone [of 1 "- (1/100)" "- (1/10000)" "- (1/100)" 5 40 "1/5" "9/10" 0 3]
  by simp


section \<open>Properties of the evaluation of the linear calibrator\<close>

lemma count_ge_label:
  "count_true (\<lambda>(p, y). p \<ge> t \<and> y = l) scored = length (filter (\<lambda>s. t \<le> s) (scores_with l scored))"
  by (induction scored) (auto simp: count_true_def scores_with_def)

lemma count_lt_label:
  "count_true (\<lambda>(p, y). \<not> p \<ge> t \<and> y = l) scored
     = length (filter (\<lambda>s. \<not> t \<le> s) (scores_with l scored))"
  by (induction scored) (auto simp: count_true_def scores_with_def)

lemma ratio_of_counts:
  "(if length (filter P xs) + length (filter (\<lambda>x. \<not> P x) xs) > 0
    then real (length (filter P xs)) / real (length (filter P xs) + length (filter (\<lambda>x. \<not> P x) xs))
    else 0) = real (length (filter P xs)) / real (length xs)"
proof -
  have "length (filter P xs) + length (filter (\<lambda>x. \<not> P x) xs) = length xs"
    by (rule sum_length_filter_compl)
  then show ?thesis by simp
qed

lemma tpr_at_rate: "tpr_at scored t = rate_ge (scores_with 1 scored) t"
  unfolding tpr_at_def Let_def count_ge_label count_lt_label rate_ge_def
  by (rule ratio_of_counts)

lemma fpr_at_rate: "fpr_at scored t = rate_ge (scores_with 0 scored) t"
  unfolding fpr_at_def Let_def count_ge_label count_lt_label rate_ge_def
  by (rule ratio_of_counts)

lemma rate_ge_all: "xs \<noteq> [] \<Longrightarrow> \<forall>s\<in>set xs. t \<le> s \<Longrightarrow> rate_ge xs t = 1"
  by (simp add: rate_ge_def)

lemma rate_ge_none: "\<forall>s\<in>set xs. s < t \<Longrightarrow> rate_ge xs t = 0"
proof -
  assume "\<forall>s\<in>set xs. s < t"
  then have "filter (\<lambda>s. t \<le> s) xs = []"
    by (auto simp: filter_empty_conv)
  then show ?thesis by (simp add: rate_ge_def)
qed

lemma trapz_flat: "\<forall>t\<in>set ts. F t = (c::real) \<Longrightarrow> trapz (map T ts) (map F ts) = 0"
proof (induction ts)
  case Nil
  then show ?case by simp
next
  case (Cons t1 ts)
  then show ?case by (cases ts) simp_all
qed

lemma trapz_separated:
  assumes "sorted ts" and "c \<in> set ts"
    and "\<forall>t\<in>set ts. t \<le> c \<longrightarrow> T t = 1"
    and "\<forall>t\<in>set ts. c \<le> t \<longrightarrow> F t = 0"
  shows "trapz (map T ts) (map F ts) = - F (hd ts)"
  using assms
proof (induction ts)
  case Nil
  then show ?case by simp
next
  case (Cons t1 ts)
  show ?case
  proof (cases "c = t1")
    case True
    with Cons.prems(1,4) have "\<forall>t\<in>set (t1 # ts). F t = 0" by auto
    then have "trapz (map T (t1 # ts)) (map F (t1 # ts)) = 0" and "F t1 = 0"
      using trapz_flat [of "t1 # ts" F 0 T] by simp_all
    then show ?thesis by simp
  next
    case False
    with Cons.prems(2) have c_in: "c \<in> set ts" by simp
    then obtain t2 rest where ts: "ts = t2 # rest" by (cases ts) auto
    have t1c: "t1 \<le> c" using Cons.prems(1) c_in by auto
    have t2c: "t2 \<le> c" using Cons.prems(1) c_in ts by auto
    have T1: "T t1 = 1" and T2: "T t2 = 1"
      using Cons.prems(3) t1c t2c ts by auto
    have "trapz (map T ts) (map F ts) = - F (hd ts)"
      using Cons.IH Cons.prems c_in by auto
    then show ?thesis
      using T1 T2 ts by (simp add: field_simps)
  qed
qed

lemma linspace_nth: "i < n \<Longrightarrow> linspace a b n ! i = a + real i * ((b - a) / real (n - 1))"
  by (simp add: linspace_def)

lemma length_linspace: "length (linspace a b n) = n"
  by (simp add: linspace_def)

lemma sorted_linspace:
  assumes "a \<le> b"
  shows "sorted (linspace a b n)"
proof -
  have step: "0 \<le> (b - a) / real (n - 1)"
    using assms by simp
  have "linspace a b n ! i \<le> linspace a b n ! j" if "i \<le> j" and "j < n" for i j
  proof -
    have "real i * ((b - a) / real (n - 1)) \<le> real j * ((b - a) / real (n - 1))"
      using that(1) step by (intro mult_right_mono) simp_all
    moreover have "i < n" using that by simp
    ultimately show ?thesis
      using that(2) by (simp only: linspace_nth add_le_cancel_left)
  qed
  then show ?thesis
    by (simp add: sorted_iff_nth_mono length_linspace)
qed

lemma unit_grid_nth: "i < 1000 \<Longrightarrow> linspace 0 1 1000 ! i = real i / 999"
  by (simp add: linspace_nth)

lemma unit_grid_mem: "k < 1000 \<Longrightarrow> real k / 999 \<in> set (linspace 0 1 1000)"
  using nth_mem [of k "linspace 0 1 1000"] by (simp add: length_linspace unit_grid_nth)

lemma unit_grid_hd: "hd (linspace 0 1 1000) = 0"
  using hd_conv_nth [of "linspace 0 1 1000"] unit_grid_nth [of 0]
  by (simp add: length_linspace flip: length_0_conv)

lemma fst_evaluate_scored:
  "fst (evaluate_scored scored)
     = trapz (map (tpr_at scored) (linspace 0 1 1000)) (map (fpr_at scored) (linspace 0 1 1000))"
  by (simp add: evaluate_scored_def Let_def)

lemma auc_separated:
  assumes k: "k < 1000"
    and neg: "\<forall>s\<in>set (scores_with 0 scored). 0 \<le> s \<and> s < real k / 999"
    and pos: "\<forall>s\<in>set (scores_with 1 scored). real k / 999 \<le> s"
    and ne0: "scores_with 0 scored \<noteq> []" and ne1: "scores_with 1 scored \<noteq> []"
  shows "fst (evaluate_scored scored) = - 1"
proof -
  let ?ts = "linspace 0 1 1000" and ?c = "real k / 999"
  have T: "\<forall>t\<in>set ?ts. t \<le> ?c \<longrightarrow> tpr_at scored t = 1"
    using pos ne1 by (auto simp: tpr_at_rate intro!: rate_ge_all)
  have F: "\<forall>t\<in>set ?ts. ?c \<le> t \<longrightarrow> fpr_at scored t = 0"
    using neg by (auto simp: fpr_at_rate intro!: rate_ge_none)
  have "fpr_at scored 0 = 1"
    using neg ne0 by (auto simp: fpr_at_rate intro!: rate_ge_all)
  moreover have "trapz (map (tpr_at scored) ?ts) (map (fpr_at scored) ?ts) = - fpr_at scored (hd ?ts)"
    by (rule trapz_separated [OF sorted_linspace unit_grid_mem [OF k] T F]) simp
  ultimately show ?thesis
    by (simp add: fst_evaluate_scored unit_grid_hd)
qed


lemma sigmoid_pos: "0 < sigmoid x"
  by (simp add: sigmoid_def add_pos_pos)

lemma sigmoid_zero: "sigmoid 0 = 1 / 2"
  by (simp add: sigmoid_def)

lemma sigmoid_strict_mono: "x < y \<Longrightarrow> sigmoid x < sigmoid y"
  unfolding sigmoid_def by (intro divide_strict_left_mono) (simp_all add: add_pos_pos)

lemma evaluate_calibrator_InrD:
  assumes "evaluate_calibrator params features labels = Inr r"
    and "length labels = length features"
  shows "r = evaluate_scored (zip (map (calibrator_prob params) features) labels)"
  using assms
  by (auto simp: evaluate_calibrator_def calibrator_probs_def broadcast2_def
           split: if_splits sum.splits)

lemma scores_with_zip:
  assumes "length labels = length probs"
  shows "set (scores_with y (zip probs labels)) = {probs ! i | i. i < length probs \<and> labels ! i = y}"
  using assms by (force simp: scores_with_def set_zip image_iff)

lemma scores_with_nonempty:
  assumes "length labels = length probs" and "y \<in> set labels"
  shows "scores_with y (zip probs labels) \<noteq> []"
proof -
  from assms(2) obtain i where i: "i < length labels" "labels ! i = y"
    by (auto simp: in_set_conv_nth)
  then have "(probs ! i, y) \<in> set (zip probs labels)"
    using assms(1) by (auto simp: set_zip)
  then have "(probs ! i, y) \<in> set (filter (\<lambda>py. snd py = y) (zip probs labels))"
    by simp
  then show ?thesis
    unfolding scores_with_def by (metis empty_iff list.map_disc_iff list.set(1))
qed

text \<open>
  The lists go to \<open>trapz\<close> in the order of the thresholds, in which the false positive
  rate falls from 1 to 0.  When both labels occur and some threshold of the grid lies
  above the probability of every different pair and not above the probability of any same
  pair, the sum is \<open>- 1\<close>.
\<close>

lemma evaluate_calibrator_auc_separated:
  assumes ev: "evaluate_calibrator params features labels = Inr (auc, eer, tar_at_far)"
    and len: "length labels = length features"
    and k: "k < 1000"
    and sep: "\<forall>i<length features.
                (labels ! i = 0 \<longrightarrow> calibrator_prob params (features ! i) < real k / 999) \<and>
                (labels ! i = 1 \<longrightarrow> real k / 999 \<le> calibrator_prob params (features ! i))"
    and l0: "0 \<in> set labels" and l1: "1 \<in> set labels"
  shows "auc = - 1"
proof -
  let ?probs = "map (calibrator_prob params) features"
  let ?scored = "zip ?probs labels"
  have len': "length labels = length ?probs" using len by simp
  have r: "(auc, eer, tar_at_far) = evaluate_scored ?scored"
    by (rule evaluate_calibrator_InrD [OF ev len])
  have neg: "\<forall>s\<in>set (scores_with 0 ?scored). 0 \<le> s \<and> s < real k / 999"
    unfolding scores_with_zip [OF len']
    using sep by (auto simp: calibrator_prob_def intro: less_imp_le [OF sigmoid_pos])
  have pos: "\<forall>s\<in>set (scores_with 1 ?scored). real k / 999 \<le> s"
    unfolding scores_with_zip [OF len'] using sep by auto
  have ne0: "scores_with 0 ?scored \<noteq> []"
    by (rule scores_with_nonempty [OF len' l0])
  have ne1: "scores_with 1 ?scored \<noteq> []"
    by (rule scores_with_nonempty [OF len' l1])
  have "fst (evaluate_scored ?scored) = - 1"
    by (rule auc_separated [OF k neg pos ne0 ne1])
  with r show ?thesis
    by (metis fst_conv)
qed

lemma trapz_single_step:
  assumes "sorted ts" and "a < b"
    and "\<forall>t\<in>set ts. t \<le> a \<or> b \<le> t"
    and "\<forall>t\<in>set ts. t \<le> a \<longrightarrow> T t = 1 \<and> F t = 1"
    and "\<forall>t\<in>set ts. b \<le> t \<longrightarrow> T t = 0 \<and> F t = 0"
    and "ts \<noteq> []" and "hd ts \<le> a" and "b \<le> last ts"
  shows "trapz (map T ts) (map F ts) = - (1 / 2)"
  using assms
proof (induction ts)
  case Nil
  then show ?case by simp
next
  case (Cons t1 ts)
  show ?case
  proof (cases ts)
    case Nil
    with Cons.prems show ?thesis by simp
  next
    case (Cons t2 rest)
    have TF1: "T t1 = 1" "F t1 = 1" using Cons.prems(4,7) by auto
    show ?thesis
    proof (cases "t2 \<le> a")
      case True
      then have TF2: "T t2 = 1" "F t2 = 1" using Cons.prems(4) Cons by auto
      have "trapz (map T ts) (map F ts) = - (1 / 2)"
        using Cons.IH Cons.prems True Cons by auto
      then show ?thesis using TF1 TF2 Cons by simp
    next
      case False
      then have b2: "b \<le> t2" using Cons.prems(3) Cons by auto
      have "\<forall>t\<in>set ts. b \<le> t" using Cons.prems(1) b2 Cons by auto
      then have "\<forall>t\<in>set ts. F t = 0" using Cons.prems(5) by auto
      then have "trapz (map T ts) (map F ts) = 0" by (rule trapz_flat)
      moreover have "T t2 = 0" "F t2 = 0" using Cons.prems(5) b2 Cons by auto
      ultimately show ?thesis using TF1 Cons by simp
    qed
  qed
qed

lemma unit_grid_last: "last (linspace 0 1 1000) = 1"
  using last_conv_nth [of "linspace 0 1 1000"] unit_grid_nth [of 999]
  by (simp add: length_linspace flip: length_0_conv)

lemma unit_grid_gap:
  assumes "t \<in> set (linspace 0 1 1000)"
  shows "t \<le> real k / 999 \<or> real (Suc k) / 999 \<le> t"
proof -
  from assms obtain i where "i < 1000" and t: "t = real i / 999"
    by (auto simp: in_set_conv_nth length_linspace unit_grid_nth)
  have "i \<le> k \<or> Suc k \<le> i" by arith
  then show ?thesis
    unfolding t by (auto simp: divide_right_mono simp del: of_nat_Suc)
qed

lemma auc_single_step:
  assumes k: "Suc k < 1000"
    and lo: "\<forall>py\<in>set scored. real k / 999 \<le> fst py \<and> fst py < real (Suc k) / 999"
    and ne0: "scores_with 0 scored \<noteq> []" and ne1: "scores_with 1 scored \<noteq> []"
  shows "fst (evaluate_scored scored) = - (1 / 2)"
proof -
  let ?ts = "linspace 0 1 1000" and ?a = "real k / 999" and ?b = "real (Suc k) / 999"
  have mem: "real k / 999 \<le> s \<and> s < real (Suc k) / 999" if "s \<in> set (scores_with y scored)" for s y
    using that lo by (auto simp: scores_with_def)
  have low: "\<forall>t\<in>set ?ts. t \<le> ?a \<longrightarrow> tpr_at scored t = 1 \<and> fpr_at scored t = 1"
    using mem ne0 ne1 by (fastforce simp: tpr_at_rate fpr_at_rate intro!: rate_ge_all)
  have high: "\<forall>t\<in>set ?ts. ?b \<le> t \<longrightarrow> tpr_at scored t = 0 \<and> fpr_at scored t = 0"
    using mem by (fastforce simp: tpr_at_rate fpr_at_rate intro!: rate_ge_none)
  have gap: "\<forall>t\<in>set ?ts. t \<le> ?a \<or> ?b \<le> t"
    using unit_grid_gap by blast
  have "trapz (map (tpr_at scored) ?ts) (map (fpr_at scored) ?ts) = - (1 / 2)"
  proof (rule trapz_single_step [OF sorted_linspace _ gap low high])
    show "(0::real) \<le> 1" by simp
    show "?a < ?b" by simp
    show "?ts \<noteq> []" by (simp add: length_linspace flip: length_0_conv)
    show "hd ?ts \<le> ?a" by (simp add: unit_grid_hd)
    show "?b \<le> last ?ts" using k by (simp add: unit_grid_last)
  qed
  then show ?thesis by (simp add: fst_evaluate_scored)
qed


lemma evaluate_calibrator_Inr:
  assumes "list_all (\<lambda>row. length row = length (tl params)) features"
    and "params \<noteq> []" and "length labels = length features"
  shows "evaluate_calibrator params features labels
           = Inr (evaluate_scored (zip (map (calibrator_prob params) features) labels))"
  using assms by (simp add: evaluate_calibrator_def calibrator_probs_def broadcast2_def)

lemma sigmoid_minus_one: "sigmoid (- 1) < 499 / 999"
proof -
  have "(2::real) \<le> exp 1"
    using exp_ge_add_one_self [of "1::real"] by simp
  then have "1 / (1 + exp (1::real)) \<le> 1 / 3"
    by (intro divide_left_mono) (simp_all add: add_pos_pos)
  then show ?thesis by (simp add: sigmoid_def)
qed

lemma sigmoid_near_half: "499 / 999 \<le> sigmoid (- (1 / 1000))"
proof -
  have "exp (1 / 1000 :: real) \<le> 1 + 1 / 1000 + (1 / 1000)\<^sup>2"
    by (rule exp_bound) simp_all
  then have "1 + exp (1 / 1000 :: real) \<le> 999 / 499"
    by (simp add: power2_eq_square)
  then have "1 / (999 / 499) \<le> 1 / (1 + exp (1 / 1000 :: real))"
    by (intro divide_left_mono) (simp_all add: add_pos_pos)
  then show ?thesis by (simp add: sigmoid_def)
qed

text \<open>
  Claim C4.  One same pair with probability \<open>1/2\<close> and one different pair with probability
  \<open>sigmoid (- 1)\<close>, which is less: a perfect separator, with 499 of the grid's thresholds
  between the two probabilities.  The claim asks for the AUC 1; \<open>evaluate_calibrator\<close>
  reports \<open>- 1\<close>.
\<close>

theorem evaluate_calibrator_auc_perfect_separator:
  "calibrator_prob [0, 1, 0, 0, 0] [- 1, 0, 0, 0] < calibrator_prob [0, 1, 0, 0, 0] [0, 0, 0, 0]
   \<and> map_sum id fst (evaluate_calibrator [0, 1, 0, 0, 0] [[0, 0, 0, 0], [- 1, 0, 0, 0]] [1, 0])
      = Inr (- 1)"
proof -
  let ?params = "[0, 1, 0, 0, 0] :: real list"
  let ?features = "[[0, 0, 0, 0], [- 1, 0, 0, 0]] :: real list list"
  let ?labels = "[1, 0] :: int list"
  obtain auc eer tar_at_far where
    r: "evaluate_scored (zip (map (calibrator_prob ?params) ?features) ?labels) = (auc, eer, tar_at_far)"
    using prod_cases3 by blast
  have ev: "evaluate_calibrator ?params ?features ?labels = Inr (auc, eer, tar_at_far)"
    unfolding r [symmetric] by (rule evaluate_calibrator_Inr) simp_all
  have sep: "\<forall>i<length ?features.
               (?labels ! i = 0 \<longrightarrow> calibrator_prob ?params (?features ! i) < real 499 / 999) \<and>
               (?labels ! i = 1 \<longrightarrow> real 499 / 999 \<le> calibrator_prob ?params (?features ! i))"
    using sigmoid_minus_one
    by (simp add: less_Suc_eq numeral_2_eq_2 calibrator_prob_def logit_row sigmoid_zero)
  have "auc = - 1"
    by (rule evaluate_calibrator_auc_separated [OF ev _ _ sep]) simp_all
  moreover have "calibrator_prob ?params [- 1, 0, 0, 0] < calibrator_prob ?params [0, 0, 0, 0]"
    using sigmoid_strict_mono [of "- 1" 0] by (simp add: calibrator_prob_def logit_row)
  ultimately show ?thesis
    by (simp add: ev)
qed

lemma rate_ge_antimono:
  assumes "t \<le> u"
  shows "rate_ge xs u \<le> rate_ge xs t"
proof -
  have "length (filter (\<lambda>s. u \<le> s) xs) \<le> length (filter (\<lambda>s. t \<le> s) xs)"
    using assms by (induction xs) auto
  then show ?thesis
    by (simp add: rate_ge_def divide_right_mono)
qed

lemma trapz_nonpos:
  assumes "sorted ts" and "\<forall>t. 0 \<le> T t" and "\<forall>t u. t \<le> u \<longrightarrow> F u \<le> F t"
  shows "trapz (map T ts) (map F ts) \<le> 0"
  using assms(1)
proof (induction ts)
  case Nil
  then show ?case by simp
next
  case (Cons t1 ts)
  show ?case
  proof (cases ts)
    case Nil
    then show ?thesis by simp
  next
    case (Cons t2 rest)
    have "t1 \<le> t2" using Cons.prems Cons by simp
    then have "F t2 - F t1 \<le> 0" using assms(3) by simp
    moreover have "0 \<le> T t2 + T t1" using assms(2) by (simp add: add_nonneg_nonneg)
    ultimately have "(F t2 - F t1) * (T t2 + T t1) \<le> 0"
      by (rule mult_nonpos_nonneg)
    moreover have "trapz (map T ts) (map F ts) \<le> 0"
      using Cons.IH Cons.prems by simp
    ultimately show ?thesis using Cons by simp
  qed
qed

text \<open>No input gives a positive AUC.\<close>

lemma evaluate_scored_auc_nonpos: "fst (evaluate_scored scored) \<le> 0"
  unfolding fst_evaluate_scored
proof (rule trapz_nonpos [OF sorted_linspace])
  show "(0::real) \<le> 1" by simp
  show "\<forall>t. 0 \<le> tpr_at scored t"
    by (simp add: tpr_at_rate rate_ge_def)
  show "\<forall>t u. t \<le> u \<longrightarrow> fpr_at scored u \<le> fpr_at scored t"
    by (simp add: fpr_at_rate rate_ge_antimono)
qed

text \<open>
  When the two probabilities of a perfect separator fall between two neighbouring
  thresholds of the grid, the curve has a single step and the sum is \<open>- 1/2\<close>.
\<close>

lemma auc_between_grid_points:
  "calibrator_prob [0, 1, 0, 0, 0] [- (1 / 1000), 0, 0, 0] < calibrator_prob [0, 1, 0, 0, 0] [0, 0, 0, 0]
   \<and> map_sum id fst
        (evaluate_calibrator [0, 1, 0, 0, 0] [[0, 0, 0, 0], [- (1 / 1000), 0, 0, 0]] [1, 0])
      = Inr (- (1 / 2))"
proof -
  let ?params = "[0, 1, 0, 0, 0] :: real list"
  let ?features = "[[0, 0, 0, 0], [- (1 / 1000), 0, 0, 0]] :: real list list"
  let ?labels = "[1, 0] :: int list"
  let ?scored = "zip (map (calibrator_prob ?params) ?features) ?labels"
  have p1: "calibrator_prob ?params [0, 0, 0, 0] = 1 / 2"
    by (simp add: calibrator_prob_def logit_row sigmoid_zero)
  have p0: "calibrator_prob ?params [- (1 / 1000), 0, 0, 0] = sigmoid (- (1 / 1000))"
    by (simp add: calibrator_prob_def logit_row)
  have lt: "sigmoid (- (1 / 1000)) < 1 / 2"
    using sigmoid_strict_mono [of "- (1 / 1000)" 0] by (simp add: sigmoid_zero)
  have ev: "evaluate_calibrator ?params ?features ?labels = Inr (evaluate_scored ?scored)"
    by (rule evaluate_calibrator_Inr) simp_all
  have "fst (evaluate_scored ?scored) = - (1 / 2)"
  proof (rule auc_single_step [of 499])
    show "\<forall>py\<in>set ?scored. real 499 / 999 \<le> fst py \<and> fst py < real (Suc 499) / 999"
      using sigmoid_near_half lt by (simp add: p1 p0)
    show "scores_with 0 ?scored \<noteq> []" by (simp add: scores_with_def)
    show "scores_with 1 ?scored \<noteq> []" by (simp add: scores_with_def)
  qed simp
  then show ?thesis
    using lt by (simp add: ev p1 p0)
qed


section \<open>Properties of the evaluation of the penalty calibrator\<close>

lemma eer_search_min:
  assumes "\<forall>t\<in>set ts. m \<le> mean_error_at same diff t"
    and "m \<le> b"
    and "b = m \<or> (\<exists>t\<in>set ts. mean_error_at same diff t = m)"
  shows "fst (eer_search same diff ts (b, bt)) = m"
  using assms
proof (induction ts arbitrary: b bt)
  case Nil
  then show ?case by simp
next
  case (Cons t ts)
  show ?case
  proof (cases "mean_error_at same diff t < b")
    case True
    have "fst (eer_search same diff ts (mean_error_at same diff t, t)) = m"
    proof (rule Cons.IH)
      show "\<forall>t\<in>set ts. m \<le> mean_error_at same diff t" using Cons.prems(1) by simp
      show "m \<le> mean_error_at same diff t" using Cons.prems(1) by simp
      show "mean_error_at same diff t = m \<or> (\<exists>t\<in>set ts. mean_error_at same diff t = m)"
        using Cons.prems True by fastforce
    qed
    with True show ?thesis by simp
  next
    case False
    have "fst (eer_search same diff ts (b, bt)) = m"
    proof (rule Cons.IH)
      show "\<forall>t\<in>set ts. m \<le> mean_error_at same diff t" using Cons.prems(1) by simp
      show "m \<le> b" by (rule Cons.prems(2))
      show "b = m \<or> (\<exists>t\<in>set ts. mean_error_at same diff t = m)"
        using Cons.prems False by auto
    qed
    with False show ?thesis by simp
  qed
qed

lemma failing_mean_error_lower:
  "1 / 6 \<le> mean_error_at [1 / 10, 1 / 2, 9 / 10] [0, 2 / 5] t"
  by (simp add: mean_error_at_def count_true_def)

lemma failing_mean_error_attained:
  "mean_error_at [1 / 10, 1 / 2, 9 / 10] [0, 2 / 5] (real 450 / 999) = 1 / 6"
  by (simp add: mean_error_at_def count_true_def)


lemma failing_scores:
  "calibrated_scores (1 / 200) 5 30 \<lparr>similarity = [1 / 10, 1 / 2, 9 / 10], age_diff = [0, 0, 0]\<rparr>
     = Inr [1 / 10, 1 / 2, 9 / 10]"
  "calibrated_scores (1 / 200) 5 30 \<lparr>similarity = [0, 2 / 5], age_diff = [0, 0]\<rparr> = Inr [0, 2 / 5]"
  by (simp_all add: calibrated_scores_def broadcast2_def penalty_calibration_def clip_def)

text \<open>
  Claim C5, on the penalty evaluator.  Three same-person pairs with similarities 0.1, 0.5
  and 0.9 and two different-person pairs with similarities 0 and 0.4, all with age
  difference 0, so that the calibrated scores are the similarities.  The loop keeps the
  least mean of the two error rates over the grid, which is \<open>1/6\<close>, reached between 0.4 and
  0.5 where the false positive rate is 0 and the false negative rate \<open>1/3\<close>.
\<close>

theorem evaluate_calibration_mean_error_minimum:
  "evaluate_calibration (1 / 200, 5, 30)
     \<lparr>similarity = [1 / 10, 1 / 2, 9 / 10], age_diff = [0, 0, 0]\<rparr>
     \<lparr>similarity = [0, 2 / 5], age_diff = [0, 0]\<rparr>
   = Inr (1 / 6)"
proof -
  have "fst (eer_search [1 / 10, 1 / 2, 9 / 10] [0, 2 / 5] (linspace 0 1 1000) (1, 1 / 2)) = 1 / 6"
  proof (rule eer_search_min)
    show "\<forall>t\<in>set (linspace 0 1 1000). 1 / 6 \<le> mean_error_at [1 / 10, 1 / 2, 9 / 10] [0, 2 / 5] t"
      using failing_mean_error_lower by blast
    show "(1 / 6 :: real) \<le> 1" by simp
    show "(1::real) = 1 / 6 \<or>
          (\<exists>t\<in>set (linspace 0 1 1000). mean_error_at [1 / 10, 1 / 2, 9 / 10] [0, 2 / 5] t = 1 / 6)"
    proof -
      have "real 450 / 999 \<in> set (linspace 0 1 1000)"
        by (rule unit_grid_mem) simp
      then show ?thesis
        using failing_mean_error_attained by blast
    qed
  qed
  then show ?thesis
    by (simp add: evaluate_calibration_def evaluate_calibration_locals_def failing_scores Let_def)
qed

text \<open>
  On the same scores the two error rates are closest, \<open>1/6\<close> apart, exactly where their
  mean is \<open>5/12\<close>; the grid has such a threshold.
\<close>

lemma failing_input_equal_error_point:
  "1 / 6 \<le> \<bar>rate_ge [0, 2 / 5] t - rate_lt [1 / 10, 1 / 2, 9 / 10] t\<bar>"
  "\<bar>rate_ge [0, 2 / 5] t - rate_lt [1 / 10, 1 / 2, 9 / 10] t\<bar> = 1 / 6
     \<Longrightarrow> (rate_ge [0, 2 / 5] t + rate_lt [1 / 10, 1 / 2, 9 / 10] t) / 2 = 5 / 12"
  "\<bar>rate_ge [0, 2 / 5] (real 200 / 999) - rate_lt [1 / 10, 1 / 2, 9 / 10] (real 200 / 999)\<bar> = 1 / 6"
  by (simp_all add: rate_ge_def rate_lt_def split: if_splits)


section \<open>TAR at a target FAR in the two evaluators\<close>

lemma tar_scan_find:
  "tar_scan target (map F ts) (map T ts)
     = (case find (\<lambda>t. F t \<le> target) ts of None \<Rightarrow> 0 | Some t \<Rightarrow> T t)"
  by (induction ts) simp_all

lemma snd_snd_evaluate_scored:
  "snd (snd (evaluate_scored scored))
     = tar_first_below (1 / 1000) (linspace 0 1 1000) (scores_with 1 scored) (scores_with 0 scored)"
  by (simp add: evaluate_scored_def Let_def tar_scan_find tar_first_below_def
                tpr_at_rate fpr_at_rate split: option.split)

lemma count_ge_rate:
  "(if length scores > 0 then real (count_true (\<lambda>s. s \<ge> t) scores) / real (length scores) else 0)
     = rate_ge scores t"
  by (simp add: count_true_def rate_ge_def)

lemma tar_search_Cons:
  "tar_search target same_scores diff_scores (t # ts)
     = (if target \<le> rate_ge diff_scores t then rate_ge same_scores t
        else tar_search target same_scores diff_scores ts)"
  unfolding tar_search.simps Let_def count_ge_rate ..

lemma tar_search_spec:
  "tar_search target same_scores diff_scores ts = tar_at_far_spec target ts same_scores diff_scores"
  unfolding tar_at_far_spec_def
  by (induction ts) (simp_all add: tar_search_Cons del: tar_search.simps(2))

text \<open>
  Claim C6, as amended.  The penalty evaluator scans a grid of 10000 thresholds from 1 down
  to 0 and reports the true positive rate at the first threshold whose false positive rate
  is at least the target \<open>1/1000\<close>, and 0 when no threshold reaches the target.  The linear
  evaluator scans its grid of 1000 thresholds from 0 up to 1 and reports the true positive
  rate at the first threshold whose false positive rate is at most the target, and 0 when
  there is none.
\<close>

theorem tar_at_far_scans:
  "(evaluate_calibration_locals (alpha, tau, M) same_pairs diff_pairs = Inr ev \<longrightarrow>
      (\<exists>same_scores diff_scores.
         calibrated_scores alpha tau M same_pairs = Inr same_scores \<and>
         calibrated_scores alpha tau M diff_pairs = Inr diff_scores \<and>
         tar ev = tar_at_far_spec (1 / 1000) (linspace 1 0 10000) same_scores diff_scores))
   \<and> (evaluate_calibrator params features labels = Inr (auc, eer, tar_at_far)
        \<and> length labels = length features \<longrightarrow>
      tar_at_far = tar_first_below (1 / 1000) (linspace 0 1 1000)
                     (scores_with 1 (zip (map (calibrator_prob params) features) labels))
                     (scores_with 0 (zip (map (calibrator_prob params) features) labels)))"
proof (intro conjI impI)
  assume "evaluate_calibration_locals (alpha, tau, M) same_pairs diff_pairs = Inr ev"
  then show "\<exists>same_scores diff_scores.
         calibrated_scores alpha tau M same_pairs = Inr same_scores \<and>
         calibrated_scores alpha tau M diff_pairs = Inr diff_scores \<and>
         tar ev = tar_at_far_spec (1 / 1000) (linspace 1 0 10000) same_scores diff_scores"
    by (auto simp: evaluate_calibration_locals_def Let_def tar_search_spec split: sum.splits)
next
  assume a: "evaluate_calibrator params features labels = Inr (auc, eer, tar_at_far)
             \<and> length labels = length features"
  then have "(auc, eer, tar_at_far) = evaluate_scored (zip (map (calibrator_prob params) features) labels)"
    using evaluate_calibrator_InrD by blast
  then have "tar_at_far = snd (snd (evaluate_scored (zip (map (calibrator_prob params) features) labels)))"
    by (metis snd_conv)
  then show "tar_at_far = tar_first_below (1 / 1000) (linspace 0 1 1000)
                     (scores_with 1 (zip (map (calibrator_prob params) features) labels))
                     (scores_with 0 (zip (map (calibrator_prob params) features) labels))"
    by (simp only: snd_snd_evaluate_scored)
qed


theorem tar_at_far_scans_witness:
  "(\<exists>ev same_scores diff_scores.
      evaluate_calibration_locals (1 / 200, 5, 30)
          \<lparr>similarity = [1 / 10, 1 / 2, 9 / 10], age_diff = [0, 0, 0]\<rparr>
          \<lparr>similarity = [0, 2 / 5], age_diff = [0, 0]\<rparr> = Inr ev
      \<and> calibrated_scores (1 / 200) 5 30 \<lparr>similarity = [1 / 10, 1 / 2, 9 / 10], age_diff = [0, 0, 0]\<rparr>
            = Inr same_scores
      \<and> calibrated_scores (1 / 200) 5 30 \<lparr>similarity = [0, 2 / 5], age_diff = [0, 0]\<rparr>
            = Inr diff_scores
      \<and> tar ev = tar_at_far_spec (1 / 1000) (linspace 1 0 10000) same_scores diff_scores)
   \<and> (\<exists>auc eer tar_at_far.
        evaluate_calibrator [0, 1, 0, 0, 0] [[0, 0, 0, 0], [- 1, 0, 0, 0]] [1, 0]
          = Inr (auc, eer, tar_at_far)
        \<and> length [1, 0 :: int] = length [[0, 0, 0, 0], [- 1, 0, 0, 0 :: real]]
        \<and> tar_at_far = tar_first_below (1 / 1000) (linspace 0 1 1000)
             (scores_with 1 (zip (map (calibrator_prob [0, 1, 0, 0, 0]) [[0, 0, 0, 0], [- 1, 0, 0, 0]]) [1, 0]))
             (scores_with 0 (zip (map (calibrator_prob [0, 1, 0, 0, 0]) [[0, 0, 0, 0], [- 1, 0, 0, 0]]) [1, 0])))"
proof -
  let ?S = "\<lparr>similarity = [1 / 10, 1 / 2, 9 / 10], age_diff = [0, 0, 0]\<rparr>"
  let ?D = "\<lparr>similarity = [0, 2 / 5], age_diff = [0, 0 :: real]\<rparr>"
  let ?params = "[0, 1, 0, 0, 0] :: real list"
  let ?features = "[[0, 0, 0, 0], [- 1, 0, 0, 0]] :: real list list"
  let ?labels = "[1, 0] :: int list"
  obtain ev where ev: "evaluate_calibration_locals (1 / 200, 5, 30) ?S ?D = Inr ev"
    by (simp add: evaluate_calibration_locals_def failing_scores Let_def)
  obtain auc eer tar_at_far where
    r: "evaluate_scored (zip (map (calibrator_prob ?params) ?features) ?labels) = (auc, eer, tar_at_far)"
    using prod_cases3 by blast
  have lin: "evaluate_calibrator ?params ?features ?labels = Inr (auc, eer, tar_at_far)"
    unfolding r [symmetric] by (rule evaluate_calibrator_Inr) simp_all
  have len: "length ?labels = length ?features" by simp
  show ?thesis
    using tar_at_far_scans [of "1 / 200" 5 30 ?S ?D ev ?params ?features ?labels auc eer tar_at_far]
          ev lin len
    by blast
qed

lemma rate_ge_single: "rate_ge [p] t = (if t \<le> p then 1 else 0)"
  by (simp add: rate_ge_def)

lemma find_on_grid_ascending:
  "find (\<lambda>t. rate_ge [1 / 2] t \<le> 1 / 1000) (linspace 0 1 1000) = Some (real 500 / 999)"
proof -
  have "\<not> rate_ge [1 / 2] (linspace 0 1 1000 ! j) \<le> 1 / 1000" if "j < 500" for j
  proof -
    have "real j \<le> 499" using that by simp
    then have "real j / 999 \<le> 1 / 2" by simp
    then show ?thesis using that by (simp add: unit_grid_nth rate_ge_single)
  qed
  moreover have "rate_ge [1 / 2] (linspace 0 1 1000 ! 500) \<le> 1 / 1000"
    by (simp add: unit_grid_nth rate_ge_single)
  moreover have "real 500 / 999 = linspace 0 1 1000 ! 500"
    by (simp add: unit_grid_nth)
  ultimately show ?thesis
    unfolding find_Some_iff length_linspace
    by (intro exI [of _ 500]) simp
qed

lemma find_on_grid_descending:
  "find (\<lambda>t. 1 / 1000 \<le> rate_ge [1 / 2] t) (rev (linspace 0 1 1000)) = Some (real 499 / 999)"
proof -
  have nth: "rev (linspace 0 1 1000) ! j = real (999 - j) / 999" if "j < 1000" for j
    using that by (simp add: rev_nth length_linspace unit_grid_nth)
  have "\<not> 1 / 1000 \<le> rate_ge [1 / 2] (rev (linspace 0 1 1000) ! j)" if "j < 500" for j
  proof -
    have "500 \<le> real (999 - j)" using that by simp
    then have "\<not> real (999 - j) / 999 \<le> 1 / 2" by simp
    then show ?thesis using that by (simp add: nth rate_ge_single)
  qed
  moreover have "1 / 1000 \<le> rate_ge [1 / 2] (rev (linspace 0 1 1000) ! 500)"
    by (simp add: nth rate_ge_single)
  moreover have "real 499 / 999 = rev (linspace 0 1 1000) ! 500"
    by (simp add: nth)
  ultimately show ?thesis
    unfolding find_Some_iff length_rev length_linspace
    by (intro exI [of _ 500]) simp
qed

text \<open>
  One same pair and one different pair, both with probability \<open>1/2\<close>.  The linear
  evaluator reports 0, the rate just above \<open>1/2\<close>; the scan from the highest threshold
  down stops just below \<open>1/2\<close> and gives 1, on the grid and on the scores themselves.
\<close>

theorem tar_at_far_counterexample:
  "calibrator_prob [0, 0, 0, 0, 0] [0, 0, 0, 0] = 1 / 2
   \<and> map_sum id (snd \<circ> snd)
        (evaluate_calibrator [0, 0, 0, 0, 0] [[0, 0, 0, 0], [0, 0, 0, 0]] [1, 0]) = Inr 0
   \<and> tar_at_far_spec (1 / 1000) (rev (linspace 0 1 1000)) [1 / 2] [1 / 2] = 1
   \<and> tar_at_far_spec (1 / 1000) [1 / 2] [1 / 2] [1 / 2] = 1"
proof -
  let ?params = "[0, 0, 0, 0, 0] :: real list"
  let ?features = "[[0, 0, 0, 0], [0, 0, 0, 0]] :: real list list"
  let ?labels = "[1, 0] :: int list"
  let ?scored = "zip (map (calibrator_prob ?params) ?features) ?labels"
  have p: "calibrator_prob ?params [0, 0, 0, 0] = 1 / 2"
    by (simp add: calibrator_prob_def logit_row sigmoid_zero)
  have ev: "evaluate_calibrator ?params ?features ?labels = Inr (evaluate_scored ?scored)"
    by (rule evaluate_calibrator_Inr) simp_all
  have sc: "scores_with 1 ?scored = [1 / 2]" "scores_with 0 ?scored = [1 / 2]"
    by (simp_all add: scores_with_def p)
  have code: "snd (snd (evaluate_scored ?scored)) = 0"
    unfolding snd_snd_evaluate_scored sc tar_first_below_def find_on_grid_ascending
    by (simp add: rate_ge_single)
  have spec_grid: "tar_at_far_spec (1 / 1000) (rev (linspace 0 1 1000)) [1 / 2] [1 / 2] = 1"
    unfolding tar_at_far_spec_def find_on_grid_descending
    by (simp add: rate_ge_single)
  have spec_scores: "tar_at_far_spec (1 / 1000) [1 / 2] [1 / 2] [1 / 2] = 1"
    by (simp add: tar_at_far_spec_def rate_ge_single)
  show ?thesis
    using p code spec_grid spec_scores by (simp add: ev)
qed


section \<open>Properties of the extraction loops\<close>

lemma feature_vec_shape:
  assumes "feature_vec e1 a1 u1 e2 a2 u2 = Inr fv"
  shows "length fv = 4 \<and> 0 \<le> fv ! 1 \<and> fv ! 2 = (fv ! 1)\<^sup>2"
  using assms by (auto simp: feature_vec_def Let_def split: sum.splits)

lemma pair_outcome_shape:
  assumes "pair_outcome env images_dir pair = Produced fv"
  shows "length fv = 4 \<and> 0 \<le> fv ! 1 \<and> fv ! 2 = (fv ! 1)\<^sup>2"
proof -
  from assms obtain e1 a1 u1 e2 a2 u2 where "feature_vec e1 a1 u1 e2 a2 u2 = Inr fv"
    by (auto simp: pair_outcome_def Let_def split: prod.splits option.splits sum.splits)
  then show ?thesis by (rule feature_vec_shape)
qed


lemma pairs_loop_features:
  "fst (pairs_loop env images_dir n idx pairs (features, labels, printed))
     = features @ List.map_filter (\<lambda>pair. produced (pair_outcome env images_dir pair)) pairs"
proof (induction pairs arbitrary: idx features labels printed)
  case Nil
  then show ?case by simp
next
  case (Cons pair pairs)
  show ?case
    by (cases "pair_outcome env images_dir pair") (simp_all add: Cons.IH)
qed


lemma extract_features_kept:
  "fst (extract_features_from_pairs pairs images_dir env)
     = List.map_filter (\<lambda>pair. produced (pair_outcome env images_dir pair)) pairs"
proof -
  obtain features labels printed where
    r: "pairs_loop env images_dir (length pairs) 0 pairs ([], [], [Extracting_features])
          = (features, labels, printed)"
    using prod_cases3 by blast
  show ?thesis
    using pairs_loop_features [of env images_dir "length pairs" 0 pairs "[]" "[]" "[Extracting_features]"]
    by (simp add: extract_features_from_pairs_def r)
qed


lemma produced_Some: "produced r = Some x \<longleftrightarrow> r = Produced x"
  by (cases r) simp_all

text \<open>
  Claim C8, as amended.  Whatever the pairs, the images and the answers of the two
  networks, every feature vector that \<open>extract_features_from_pairs\<close> emits has four
  entries, an age difference that is not negative, and the square of that age difference
  as its third entry.
\<close>

theorem extracted_age_diff_nonneg:
  "\<forall>fv\<in>set (fst (extract_features_from_pairs pairs images_dir env)).
     length fv = 4 \<and> 0 \<le> fv ! 1 \<and> fv ! 2 = (fv ! 1)\<^sup>2"
proof
  fix fv
  assume "fv \<in> set (fst (extract_features_from_pairs pairs images_dir env))"
  then obtain pair where "produced (pair_outcome env images_dir pair) = Some fv"
    unfolding extract_features_kept by (auto simp: List.map_filter_def)
  then have "pair_outcome env images_dir pair = Produced fv"
    by (simp add: produced_Some)
  then show "length fv = 4 \<and> 0 \<le> fv ! 1 \<and> fv ! 2 = (fv ! 1)\<^sup>2"
    by (rule pair_outcome_shape)
qed


lemma two_faces_run:
  "extract_features_from_pairs [(''a.jpg'', ''b.jpg'', 1)] ''d'' two_faces
     = ([[0, 12, 144, 3]], [1],
        [Extracting_features, Extracted_vectors 1, Positive_pairs 1, Negative_pairs 0])"
  by (simp add: extract_features_from_pairs_def pair_outcome_def path_join_def two_faces_def
                get_embedding_and_age_def feature_vec_def np_dot_def linalg_norm_def)

theorem extracted_age_diff_nonneg_witness:
  "fst (extract_features_from_pairs [(''a.jpg'', ''b.jpg'', 1)] ''d'' two_faces) = [[0, 12, 144, 3]]
   \<and> list_all (\<lambda>fv. length fv = 4 \<and> 0 \<le> fv ! 1 \<and> fv ! 2 = (fv ! 1)\<^sup>2)
        (fst (extract_features_from_pairs [(''a.jpg'', ''b.jpg'', 1)] ''d'' two_faces))"
  using extracted_age_diff_nonneg [of "[(''a.jpg'', ''b.jpg'', 1)]" "''d''" two_faces]
  by (simp add: two_faces_run)

text \<open>
  Nothing validates a feature vector that is built by hand: the linear evaluator scores a
  row whose age difference is \<open>- 3\<close> without raising, and the penalty calibrator returns
  a score for the age difference \<open>- 3\<close>.
\<close>

theorem negative_age_diff_accepted:
  "\<not> isl (evaluate_calibrator [0, 1, - (1 / 100), - (1 / 10000), - (1 / 100)] [[1 / 2, - 3, 9, 0]] [1])
   \<and> penalty_calibration (7 / 10) (- 3) (1 / 200) 5 30 = 7 / 10"
  by (simp add: evaluate_calibrator_Inr penalty_calibration_def clip_def)
























section \<open>Equal error rate in the linear evaluator\<close>

lemma argmin_from_least:
  assumes "ys = pre @ xs" and "length pre = i" and "best_i < i" and "ys ! best_i = best"
    and "\<forall>j<i. best \<le> ys ! j"
  shows "argmin_from xs i best_i best < length ys
       \<and> (\<forall>j<length ys. ys ! argmin_from xs i best_i best \<le> ys ! j)"
  using assms
proof (induction xs arbitrary: pre i best_i best)
  case Nil
  then show ?case by auto
next
  case (Cons x xs)
  have ys: "ys = (pre @ [x]) @ xs" and len: "length (pre @ [x]) = Suc i"
    using Cons.prems(1,2) by simp_all
  have x: "ys ! i = x"
    using Cons.prems(1,2) by (simp add: nth_append)
  show ?case
  proof (cases "x < best")
    case True
    have "\<forall>j<Suc i. x \<le> ys ! j"
      using Cons.prems(5) True x by (auto simp: less_Suc_eq intro: order_trans less_imp_le)
    then show ?thesis
      using Cons.IH [OF ys len _ x] True by simp
  next
    case False
    have "\<forall>j<Suc i. best \<le> ys ! j"
      using Cons.prems(5) False x by (auto simp: less_Suc_eq)
    then show ?thesis
      using Cons.IH [OF ys len _ Cons.prems(4)] Cons.prems(3) False by simp
  qed
qed

lemma argmin_least:
  assumes "xs \<noteq> []"
  shows "argmin xs < length xs \<and> (\<forall>j<length xs. xs ! argmin xs \<le> xs ! j)"
proof -
  obtain x rest where xs: "xs = x # rest" using assms by (cases xs) auto
  have "argmin_from rest 1 0 x < length xs \<and> (\<forall>j<length xs. xs ! argmin_from rest 1 0 x \<le> xs ! j)"
    by (rule argmin_from_least [where pre = "[x]"]) (simp_all add: xs)
  then show ?thesis by (simp add: argmin_def xs)
qed

lemma rate_ge_unit: "0 \<le> rate_ge xs t \<and> rate_ge xs t \<le> 1"
proof -
  have "length (filter (\<lambda>s. t \<le> s) xs) \<le> length xs" by simp
  then have "real (length (filter (\<lambda>s. t \<le> s) xs)) \<le> real (length xs)" by simp
  then show ?thesis
    by (cases "xs = []") (simp_all add: rate_ge_def divide_le_eq_1)
qed

text \<open>
  The linear evaluator, for comparison: its EER lies in \<open>[0, 1]\<close> and is the mean of the
  false positive rate and of one minus the true positive rate at a threshold of the grid
  where the gap between the two is least.
\<close>

lemma linear_eer_minimises_gap:
  assumes "evaluate_scored scored = (auc, eer, tar_at_far)"
  shows "0 \<le> eer \<and> eer \<le> 1
       \<and> (\<exists>t\<in>set (linspace 0 1 1000).
            eer = (fpr_at scored t + (1 - tpr_at scored t)) / 2
            \<and> (\<forall>u\<in>set (linspace 0 1 1000).
                  \<bar>fpr_at scored t - (1 - tpr_at scored t)\<bar> \<le> \<bar>fpr_at scored u - (1 - tpr_at scored u)\<bar>))"
proof -
  let ?ts = "linspace 0 1 1000"
  let ?gaps = "map2 (\<lambda>t f. \<bar>t - (1 - f)\<bar>) (map (tpr_at scored) ?ts) (map (fpr_at scored) ?ts)"
  let ?i = "argmin ?gaps"
  have len: "length ?gaps = 1000" by (simp add: length_linspace)
  then have ne: "?gaps \<noteq> []" by auto
  have "?i < length ?gaps \<and> (\<forall>j<length ?gaps. ?gaps ! ?i \<le> ?gaps ! j)"
    by (rule argmin_least [OF ne])
  then have i: "?i < 1000" and least: "\<forall>j<1000. ?gaps ! ?i \<le> ?gaps ! j"
    unfolding len by blast+
  have gap: "?gaps ! j = \<bar>fpr_at scored (?ts ! j) - (1 - tpr_at scored (?ts ! j))\<bar>" if "j < 1000" for j
    using that by (simp add: length_linspace abs_minus_commute algebra_simps)
  have eer: "eer = (fpr_at scored (?ts ! ?i) + (1 - tpr_at scored (?ts ! ?i))) / 2"
    using assms i by (simp add: evaluate_scored_def Let_def length_linspace)
  have mem: "?ts ! ?i \<in> set ?ts"
    using i by (simp add: length_linspace)
  have min: "\<forall>u\<in>set ?ts. \<bar>fpr_at scored (?ts ! ?i) - (1 - tpr_at scored (?ts ! ?i))\<bar>
                          \<le> \<bar>fpr_at scored u - (1 - tpr_at scored u)\<bar>"
  proof
    fix u assume "u \<in> set ?ts"
    then obtain j where j: "j < 1000" "u = ?ts ! j"
      by (auto simp: in_set_conv_nth length_linspace)
    have "?gaps ! ?i \<le> ?gaps ! j"
      using least j(1) by blast
    then show "\<bar>fpr_at scored (?ts ! ?i) - (1 - tpr_at scored (?ts ! ?i))\<bar>
            \<le> \<bar>fpr_at scored u - (1 - tpr_at scored u)\<bar>"
      unfolding gap [OF i] gap [OF j(1)] j(2) .
  qed
  have range: "0 \<le> eer \<and> eer \<le> 1"
    using rate_ge_unit [of "scores_with 0 scored" "?ts ! ?i"]
          rate_ge_unit [of "scores_with 1 scored" "?ts ! ?i"]
    unfolding eer tpr_at_rate fpr_at_rate by simp
  show ?thesis
    using range eer mem min by blast
qed


end
